theory Spec2Isabelle
  imports Complex_Main "HOL-Library.Multiset"
begin

section \<open>Hour Tracker: weekly submission, ordered query and refresh protocol\<close>

text \<open>
  The development follows the three source files:
  \<^item> \<^verbatim>\<open>WorkLogController.cls\<close>: the Apex classes \<^verbatim>\<open>WorkLogController\<close> (method
    \<^verbatim>\<open>saveHours\<close>) and \<^verbatim>\<open>HourTrackerController\<close> (method \<^verbatim>\<open>getAllHours\<close>);
  \<^item> \<^verbatim>\<open>hourTracker.js\<close>: the entry form component \<^verbatim>\<open>HourTracker\<close>;
  \<^item> the display component \<^verbatim>\<open>HourTrackerDisplay\<close>.

  Mutable component fields and the database table are explicit states, exceptions and
  promise rejections are values of a sum type, and everything a handler does to the outside
  (a toast, a published message, a remote call, a console line) is recorded in a trace.
\<close>

subsection \<open>Values on the server side\<close>

text \<open>
  An Apex \<^verbatim>\<open>Date\<close> is a calendar day; it is represented by its day number, so that
  \<^verbatim>\<open>addDays\<close> is addition. An Apex \<^verbatim>\<open>Decimal\<close> is a rational number.
\<close>

type_synonym date = int
type_synonym decimal = rat

definition addDays :: "date \<Rightarrow> int \<Rightarrow> date" where
  "addDays d n = d + n"

text \<open>The values an untyped \<^verbatim>\<open>Object\<close> of the request map can hold.\<close>

datatype apex_obj = ANull | AString string | AInteger int | ABoolean bool

datatype apex_exn =
    AuraHandledException string
  | TypeException string
  | NullPointerException string

fun getMessage :: "apex_exn \<Rightarrow> string" where
  "getMessage (AuraHandledException m) = m"
| "getMessage (TypeException m) = m"
| "getMessage (NullPointerException m) = m"

text \<open>
  The library functions of the platform that the code calls are parameters of the model:
  the two Apex parsers (their argument may be \<^verbatim>\<open>null\<close>), \<^verbatim>\<open>String.valueOf\<close> on an
  \<^verbatim>\<open>Object\<close>, the exception of a failed cast to \<^verbatim>\<open>String\<close>, and on the client
  \<^verbatim>\<open>new Date(s).getDay()\<close>, which is \<open>None\<close> where JavaScript gives \<^verbatim>\<open>NaN\<close>.
\<close>

record platform =
  Date_valueOf :: "string option \<Rightarrow> apex_exn + date"
  Decimal_valueOf :: "string option \<Rightarrow> apex_exn + decimal"
  String_valueOf :: "apex_obj \<Rightarrow> string option"
  cast_failure :: "apex_obj \<Rightarrow> apex_exn"
  getDay :: "string \<Rightarrow> nat option"

text \<open>
  Modelled from the spec: the declaration of the custom object \<^verbatim>\<open>HourTracker__c\<close> is not
  among the sources. Following the spec's WeekRecord it has an identifier assigned by the
  store on creation, the date of the week's first day and seven decimal quantities.
\<close>

record HourTracker__c =
  Id' :: "nat option"
  Sunday_Date__c :: date
  Sunday_Hours__c :: decimal
  Monday_Hours__c :: decimal
  Tuesday_Hours__c :: decimal
  Wednesday_Hours__c :: decimal
  Thursday_Hours__c :: decimal
  Friday_Hours__c :: decimal
  Saturday_Hours__c :: decimal

text \<open>The table: its rows in the order of their insertion.\<close>

type_synonym store = "HourTracker__c list"

text \<open>The statement \<^verbatim>\<open>insert\<close>: the row is appended under a fresh identifier.\<close>

definition insert_row :: "HourTracker__c \<Rightarrow> store \<Rightarrow> store" where
  "insert_row r s = s @ [r\<lparr>Id' := Some (length s)\<rparr>]"

subsection \<open>\<^verbatim>\<open>WorkLogController.saveHours\<close>\<close>

text \<open>\<^verbatim>\<open>Map<String, Object>\<close> with \<^verbatim>\<open>get\<close>, which is \<^verbatim>\<open>null\<close> for an absent key.\<close>

type_synonym apex_map = "(string \<times> apex_obj) list"

definition get :: "apex_map \<Rightarrow> string \<Rightarrow> apex_obj" where
  "get m k = (case map_of m k of None \<Rightarrow> ANull | Some v \<Rightarrow> v)"

text \<open>The cast \<^verbatim>\<open>(String) o\<close>: \<^verbatim>\<open>null\<close> and strings pass, anything else throws.\<close>

definition cast_String :: "platform \<Rightarrow> apex_obj \<Rightarrow> apex_exn + string option" where
  "cast_String P x =
     (case x of ANull \<Rightarrow> Inr None | AString s \<Rightarrow> Inr (Some s) | _ \<Rightarrow> Inl (cast_failure P x))"

text \<open>Sequencing of statements that may throw.\<close>

definition andThen :: "'e + 'a \<Rightarrow> ('a \<Rightarrow> 'e + 'b) \<Rightarrow> 'e + 'b" where
  "andThen r f = (case r of Inl e \<Rightarrow> Inl e | Inr v \<Rightarrow> f v)"

text \<open>
  Line 21: \<^verbatim>\<open>Date.valueOf((String) hourTrackerData.get('sundayDate')).addDays(1)\<close>.
\<close>

definition sundayDate_of :: "platform \<Rightarrow> apex_map \<Rightarrow> apex_exn + date" where
  "sundayDate_of P hourTrackerData =
     andThen (cast_String P (get hourTrackerData ''sundayDate'')) (\<lambda>s.
     andThen (Date_valueOf P s) (\<lambda>d.
     Inr (addDays d 1)))"

text \<open>Lines 38 to 44: \<^verbatim>\<open>Decimal.valueOf(String.valueOf(hourTrackerData.get(k)))\<close>.\<close>

definition hours_of :: "platform \<Rightarrow> apex_map \<Rightarrow> string \<Rightarrow> apex_exn + decimal" where
  "hours_of P hourTrackerData k = Decimal_valueOf P (String_valueOf P (get hourTrackerData k))"

text \<open>The SOQL query of lines 24 to 28.\<close>

definition existingRecords :: "store \<Rightarrow> date \<Rightarrow> HourTracker__c list" where
  "existingRecords s sundayDate = filter (\<lambda>r. Sunday_Date__c r = sundayDate) s"

definition duplicate_message :: string where
  "duplicate_message =
     ''A record for this date already exists. Please choose a different date.''"

text \<open>The body of the \<^verbatim>\<open>try\<close> block: either the exception thrown or the table after it.\<close>

definition saveHours_try :: "platform \<Rightarrow> apex_map \<Rightarrow> store \<Rightarrow> apex_exn + store" where
  "saveHours_try P hourTrackerData s =
     andThen (sundayDate_of P hourTrackerData) (\<lambda>sundayDate.
     if existingRecords s sundayDate \<noteq> []
     then Inl (AuraHandledException duplicate_message)
     else
       andThen (hours_of P hourTrackerData ''sundayHours'') (\<lambda>su.
       andThen (hours_of P hourTrackerData ''mondayHours'') (\<lambda>mo.
       andThen (hours_of P hourTrackerData ''tuesdayHours'') (\<lambda>tu.
       andThen (hours_of P hourTrackerData ''wednesdayHours'') (\<lambda>we.
       andThen (hours_of P hourTrackerData ''thursdayHours'') (\<lambda>th.
       andThen (hours_of P hourTrackerData ''fridayHours'') (\<lambda>fr.
       andThen (hours_of P hourTrackerData ''saturdayHours'') (\<lambda>sa.
       Inr (insert_row
         \<lparr>Id' = None, Sunday_Date__c = sundayDate,
          Sunday_Hours__c = su, Monday_Hours__c = mo, Tuesday_Hours__c = tu,
          Wednesday_Hours__c = we, Thursday_Hours__c = th, Friday_Hours__c = fr,
          Saturday_Hours__c = sa\<rparr> s)))))))))"

text \<open>
  The two \<^verbatim>\<open>catch\<close> clauses: an \<^verbatim>\<open>AuraHandledException\<close> is thrown again as it is, any
  other exception is replaced by an \<^verbatim>\<open>AuraHandledException\<close> with the same message.
\<close>

fun saveHours_catch :: "apex_exn \<Rightarrow> apex_exn" where
  "saveHours_catch (AuraHandledException m) = AuraHandledException m"
| "saveHours_catch e = AuraHandledException (getMessage e)"

text \<open>
  \<^verbatim>\<open>saveHours\<close>: the exception that leaves the method, or nothing, and the table
  afterwards. An exception leaves the table as it was.
\<close>

definition saveHours :: "platform \<Rightarrow> apex_map \<Rightarrow> store \<Rightarrow> (apex_exn + unit) \<times> store" where
  "saveHours P hourTrackerData s =
     (case saveHours_try P hourTrackerData s of
        Inl e \<Rightarrow> (Inl (saveHours_catch e), s)
      | Inr s' \<Rightarrow> (Inr (), s'))"

text \<open>Any number of calls, one after the other.\<close>

fun saveHours_all :: "platform \<Rightarrow> apex_map list \<Rightarrow> store \<Rightarrow> store" where
  "saveHours_all P [] s = s"
| "saveHours_all P (m # ms) s = saveHours_all P ms (snd (saveHours P m s))"

subsection \<open>\<^verbatim>\<open>HourTrackerController.getAllHours\<close>\<close>

text \<open>
  The query \<^verbatim>\<open>SELECT ... FROM HourTracker__c ORDER BY Sunday_Date__c\<close>: all rows, in
  ascending order of the date.
\<close>

definition getAllHours :: "store \<Rightarrow> HourTracker__c list" where
  "getAllHours s = sort_key Sunday_Date__c s"

subsection \<open>Values on the client side\<close>

text \<open>
  The JavaScript values that occur in the fields of the two components and in a message.
  Numbers are integers here: the only number the components produce is the literal \<^verbatim>\<open>0\<close>.
\<close>

datatype jsval = JUndefined | JNull | JBool bool | JNum int | JStr string

text \<open>The condition of an \<^verbatim>\<open>if\<close> statement: every value but the falsy ones.\<close>

fun truthy :: "jsval \<Rightarrow> bool" where
  "truthy JUndefined = False"
| "truthy JNull = False"
| "truthy (JBool b) = b"
| "truthy (JNum n) = (n \<noteq> 0)"
| "truthy (JStr s) = (s \<noteq> [])"

text \<open>An object literal, and reading a property, which is \<^verbatim>\<open>undefined\<close> when absent.\<close>

type_synonym jsobj = "(string \<times> jsval) list"

definition property :: "jsobj \<Rightarrow> string \<Rightarrow> jsval" where
  "property obj k = (case map_of obj k of None \<Rightarrow> JUndefined | Some v \<Rightarrow> v)"

text \<open>
  The argument of a remote call reaches Apex as a \<^verbatim>\<open>Map<String, Object>\<close>: a property
  whose value is \<^verbatim>\<open>undefined\<close> is left out, the other values keep their kind.
\<close>

fun to_apex :: "string \<times> jsval \<Rightarrow> (string \<times> apex_obj) option" where
  "to_apex (k, JUndefined) = None"
| "to_apex (k, JNull) = Some (k, ANull)"
| "to_apex (k, JBool b) = Some (k, ABoolean b)"
| "to_apex (k, JNum n) = Some (k, AInteger n)"
| "to_apex (k, JStr s) = Some (k, AString s)"

definition marshal :: "jsobj \<Rightarrow> apex_map" where
  "marshal obj = List.map_filter to_apex obj"

text \<open>What a handler does to the outside, in the order in which it does it.\<close>

datatype effect =
    Apex_saveHours jsobj
  | ShowToast string string string
  | Publish jsobj
  | RefreshApex
  | Console_error string

text \<open>Whether a remote call gets through to the server, or fails on the way with a message.\<close>

datatype transport = Delivered | Failed string

subsection \<open>The component \<^verbatim>\<open>HourTracker\<close>\<close>

record HourTracker =
  sundayDate :: jsval
  showTable :: bool
  sundayHours :: jsval
  mondayHours :: jsval
  tuesdayHours :: jsval
  wednesdayHours :: jsval
  thursdayHours :: jsval
  fridayHours :: jsval
  saturdayHours :: jsval

text \<open>The field initialisers of lines 9 to 17.\<close>

definition HourTracker_init :: HourTracker where
  "HourTracker_init =
     \<lparr>sundayDate = JUndefined, showTable = False,
      sundayHours = JNum 0, mondayHours = JNum 0, tuesdayHours = JNum 0,
      wednesdayHours = JNum 0, thursdayHours = JNum 0, fridayHours = JNum 0,
      saturdayHours = JNum 0\<rparr>"

text \<open>
  \<^verbatim>\<open>handleDateChange\<close>; the argument is \<^verbatim>\<open>event.target.value\<close>, the string of the date
  input. \<^verbatim>\<open>dayOfWeek !== 6\<close> also holds when \<^verbatim>\<open>dayOfWeek\<close> is \<^verbatim>\<open>NaN\<close>.
\<close>

definition handleDateChange ::
    "platform \<Rightarrow> string \<Rightarrow> HourTracker \<Rightarrow> HourTracker \<times> effect list" where
  "handleDateChange P v this =
     (let dayOfWeek = getDay P v in
      if dayOfWeek \<noteq> Some 6
      then (this\<lparr>showTable := False, sundayDate := JStr []\<rparr>,
            [ShowToast ''Invalid Date'' ''Please select a Sunday date.'' ''error''])
      else (this\<lparr>sundayDate := JStr v, showTable := True\<rparr>, []))"

text \<open>
  \<^verbatim>\<open>handleInputChange\<close>; the arguments are \<^verbatim>\<open>event.target.dataset.id\<close>, which is
  \<^verbatim>\<open>undefined\<close> (\<open>None\<close>) without a \<^verbatim>\<open>data-id\<close> attribute, and \<^verbatim>\<open>event.target.value\<close>.
\<close>

definition handleInputChange :: "string option \<Rightarrow> string \<Rightarrow> HourTracker \<Rightarrow> HourTracker" where
  "handleInputChange day v this =
     (if day = Some ''sunday'' then this\<lparr>sundayHours := JStr v\<rparr>
      else if day = Some ''monday'' then this\<lparr>mondayHours := JStr v\<rparr>
      else if day = Some ''tuesday'' then this\<lparr>tuesdayHours := JStr v\<rparr>
      else if day = Some ''wednesday'' then this\<lparr>wednesdayHours := JStr v\<rparr>
      else if day = Some ''thursday'' then this\<lparr>thursdayHours := JStr v\<rparr>
      else if day = Some ''friday'' then this\<lparr>fridayHours := JStr v\<rparr>
      else if day = Some ''saturday'' then this\<lparr>saturdayHours := JStr v\<rparr>
      else this)"

definition resetForm :: "HourTracker \<Rightarrow> HourTracker" where
  "resetForm this =
     this\<lparr>sundayDate := JNull,
       sundayHours := JNum 0, mondayHours := JNum 0, tuesdayHours := JNum 0,
       wednesdayHours := JNum 0, thursdayHours := JNum 0, fridayHours := JNum 0,
       saturdayHours := JNum 0\<rparr>"

definition publishRefreshMessage :: effect where
  "publishRefreshMessage = Publish [(''refresh'', JBool True)]"

text \<open>The object \<^verbatim>\<open>hourData\<close> of lines 76 to 85.\<close>

definition hourData :: "HourTracker \<Rightarrow> jsobj" where
  "hourData this =
     [(''sundayDate'', sundayDate this),
      (''sundayHours'', sundayHours this),
      (''mondayHours'', mondayHours this),
      (''tuesdayHours'', tuesdayHours this),
      (''wednesdayHours'', wednesdayHours this),
      (''thursdayHours'', thursdayHours this),
      (''fridayHours'', fridayHours this),
      (''saturdayHours'', saturdayHours this)]"

text \<open>
  The imported \<^verbatim>\<open>saveHours\<close>: the promise is fulfilled when the call got through and the
  Apex method returned, and rejected with a message (\<^verbatim>\<open>error.body.message\<close>) when the
  method threw or the call did not get through.
\<close>

definition call_saveHours ::
    "platform \<Rightarrow> transport \<Rightarrow> jsobj \<Rightarrow> store \<Rightarrow> (string + unit) \<times> store" where
  "call_saveHours P net hourTrackerData s =
     (case net of
        Failed m \<Rightarrow> (Inl m, s)
      | Delivered \<Rightarrow>
          (case saveHours P (marshal hourTrackerData) s of
             (Inl e, s') \<Rightarrow> (Inl (getMessage e), s')
           | (Inr u, s') \<Rightarrow> (Inr (), s')))"

text \<open>The two callbacks of \<^verbatim>\<open>handleSubmit\<close>.\<close>

definition handleSubmit_then :: "HourTracker \<Rightarrow> HourTracker \<times> effect list" where
  "handleSubmit_then this =
     ((resetForm this)\<lparr>showTable := False\<rparr>,
      [ShowToast ''Success'' ''Hours saved successfully!'' ''success'', publishRefreshMessage])"

definition handleSubmit_catch :: "string \<Rightarrow> HourTracker \<Rightarrow> HourTracker \<times> effect list" where
  "handleSubmit_catch message this =
     (this, [ShowToast ''Error'' (''Error logging hours: '' @ message) ''error''])"

text \<open>
  \<^verbatim>\<open>handleSubmit\<close>, from the click to the end of the callback: the component and the
  table afterwards, and the trace, which starts with the remote call.
\<close>

definition handleSubmit ::
    "platform \<Rightarrow> transport \<Rightarrow> HourTracker \<Rightarrow> store \<Rightarrow> HourTracker \<times> store \<times> effect list" where
  "handleSubmit P net this s =
     (case call_saveHours P net (hourData this) s of
        (Inr u, s') \<Rightarrow>
          (case handleSubmit_then this of
             (this', effs) \<Rightarrow> (this', s', Apex_saveHours (hourData this) # effs))
      | (Inl message, s') \<Rightarrow>
          (case handleSubmit_catch message this of
             (this', effs) \<Rightarrow> (this', s', Apex_saveHours (hourData this) # effs)))"

subsection \<open>The component \<^verbatim>\<open>HourTrackerDisplay\<close>\<close>

text \<open>A row of the table on the screen (the field names carry the prefix \<open>row_\<close>).\<close>

record row =
  row_id :: "nat option"
  row_sundayDate :: date
  row_sundayHours :: decimal
  row_mondayHours :: decimal
  row_tuesdayHours :: decimal
  row_wednesdayHours :: decimal
  row_thursdayHours :: decimal
  row_fridayHours :: decimal
  row_saturdayHours :: decimal

text \<open>What the wire service hands to \<^verbatim>\<open>wiredHours\<close>: \<^verbatim>\<open>{ data, error }\<close>.\<close>

record wire_result =
  data :: "HourTracker__c list option"
  error :: "string option"

record HourTrackerDisplay =
  hoursData :: "row list"
  wiredHoursResult :: "wire_result option"

definition HourTrackerDisplay_init :: HourTrackerDisplay where
  "HourTrackerDisplay_init = \<lparr>hoursData = [], wiredHoursResult = None\<rparr>"

text \<open>The arrow function of lines 68 to 78.\<close>

definition to_row :: "HourTracker__c \<Rightarrow> row" where
  "to_row record =
     \<lparr>row_id = Id' record,
      row_sundayDate = Sunday_Date__c record,
      row_sundayHours = Sunday_Hours__c record,
      row_mondayHours = Monday_Hours__c record,
      row_tuesdayHours = Tuesday_Hours__c record,
      row_wednesdayHours = Wednesday_Hours__c record,
      row_thursdayHours = Thursday_Hours__c record,
      row_fridayHours = Friday_Hours__c record,
      row_saturdayHours = Saturday_Hours__c record\<rparr>"

text \<open>\<^verbatim>\<open>wiredHours\<close>. An array, also the empty one, is truthy, and so is an error object.\<close>

definition wiredHours ::
    "wire_result \<Rightarrow> HourTrackerDisplay \<Rightarrow> HourTrackerDisplay \<times> effect list" where
  "wiredHours result this =
     (let this1 = this\<lparr>wiredHoursResult := Some result\<rparr> in
      case data result of
        Some d \<Rightarrow> (this1\<lparr>hoursData := map to_row d\<rparr>, [])
      | None \<Rightarrow>
          (case error result of
             Some e \<Rightarrow> (this1, [Console_error (''Error retrieving hours data: '' @ e)])
           | None \<Rightarrow> (this1, [])))"

text \<open>The wire adapter of \<^verbatim>\<open>getAllHours\<close>: one query, and its outcome.\<close>

definition wire_getAllHours :: "transport \<Rightarrow> store \<Rightarrow> wire_result" where
  "wire_getAllHours net s =
     (case net of
        Delivered \<Rightarrow> \<lparr>data = Some (getAllHours s), error = None\<rparr>
      | Failed m \<Rightarrow> \<lparr>data = None, error = Some m\<rparr>)"

text \<open>
  \<^verbatim>\<open>refreshData\<close>: \<^verbatim>\<open>refreshApex\<close> makes the wire adapter query again and hand the
  outcome to \<^verbatim>\<open>wiredHours\<close>.
\<close>

definition refreshData ::
    "transport \<Rightarrow> store \<Rightarrow> HourTrackerDisplay \<Rightarrow> HourTrackerDisplay \<times> effect list" where
  "refreshData net s this =
     (case wiredHours (wire_getAllHours net s) this of
        (this', effs) \<Rightarrow> (this', RefreshApex # effs))"

definition handleMessage ::
    "transport \<Rightarrow> store \<Rightarrow> jsobj \<Rightarrow> HourTrackerDisplay \<Rightarrow> HourTrackerDisplay \<times> effect list" where
  "handleMessage net s message this =
     (if truthy (property message ''refresh'') then refreshData net s this else (this, []))"

subsection \<open>A concrete platform\<close>

text \<open>
  To run the model on concrete inputs the platform's functions are instantiated: dates are
  read from the form \<^verbatim>\<open>yyyy-MM-dd\<close> and numbered from 1970-01-01, decimals are an optional
  minus sign, digits and an optional fraction, and the day of the week is taken in UTC
  (1970-01-01 was a Thursday, day 4).
\<close>

definition digit :: "char \<Rightarrow> nat option" where
  "digit c = map_of
     [(CHR ''0'', 0), (CHR ''1'', 1), (CHR ''2'', 2), (CHR ''3'', 3), (CHR ''4'', 4),
      (CHR ''5'', 5), (CHR ''6'', 6), (CHR ''7'', 7), (CHR ''8'', 8), (CHR ''9'', 9)] c"

fun digits_acc :: "nat \<Rightarrow> string \<Rightarrow> nat option" where
  "digits_acc n [] = Some n"
| "digits_acc n (c # cs) =
     (case digit c of None \<Rightarrow> None | Some k \<Rightarrow> digits_acc (10 * n + k) cs)"

definition digits :: "string \<Rightarrow> nat option" where
  "digits cs = (if cs = [] then None else digits_acc 0 cs)"

definition leap_year :: "nat \<Rightarrow> bool" where
  "leap_year y \<longleftrightarrow> (y mod 4 = 0 \<and> y mod 100 \<noteq> 0) \<or> y mod 400 = 0"

definition days_in_month :: "nat \<Rightarrow> nat \<Rightarrow> nat" where
  "days_in_month y m =
     (if m = 2 then (if leap_year y then 29 else 28)
      else if m = 4 \<or> m = 6 \<or> m = 9 \<or> m = 11 then 30 else 31)"

definition days_from_civil :: "nat \<Rightarrow> nat \<Rightarrow> nat \<Rightarrow> date" where
  "days_from_civil y m d =
     (let y' = (if m \<le> 2 then int y - 1 else int y);
          era = y' div 400;
          yoe = y' - era * 400;
          doy = (153 * (if m > 2 then int m - 3 else int m + 9) + 2) div 5 + int d - 1;
          doe = yoe * 365 + yoe div 4 - yoe div 100 + doy
      in era * 146097 + doe - 719468)"

definition iso_date :: "string \<Rightarrow> date option" where
  "iso_date cs =
     (if length cs = 10 \<and> cs ! 4 = CHR ''-'' \<and> cs ! 7 = CHR ''-''
      then (case (digits (take 4 cs), digits (take 2 (drop 5 cs)), digits (drop 8 cs)) of
              (Some y, Some m, Some d) \<Rightarrow>
                if 1 \<le> m \<and> m \<le> 12 \<and> 1 \<le> d \<and> d \<le> days_in_month y m
                then Some (days_from_civil y m d) else None
            | _ \<Rightarrow> None)
      else None)"

definition unsigned_decimal :: "string \<Rightarrow> decimal option" where
  "unsigned_decimal cs =
     (let whole = takeWhile (\<lambda>c. c \<noteq> CHR ''.'') cs;
          rest = dropWhile (\<lambda>c. c \<noteq> CHR ''.'') cs
      in case digits whole of
           None \<Rightarrow> None
         | Some w \<Rightarrow>
             if rest = [] then Some (of_nat w)
             else (case digits (tl rest) of
                     None \<Rightarrow> None
                   | Some f \<Rightarrow> Some (of_nat w + of_nat f / 10 ^ length (tl rest))))"

definition plain_decimal :: "string \<Rightarrow> decimal option" where
  "plain_decimal cs =
     (case cs of
        [] \<Rightarrow> None
      | c # cs' \<Rightarrow>
          if c = CHR ''-'' then map_option uminus (unsigned_decimal cs')
          else unsigned_decimal cs)"

fun string_of_nat :: "nat \<Rightarrow> string" where
  "string_of_nat n =
     (if n < 10 then [''0123456789'' ! n]
      else string_of_nat (n div 10) @ [''0123456789'' ! (n mod 10)])"

definition string_of_int :: "int \<Rightarrow> string" where
  "string_of_int i = (if i < 0 then CHR ''-'' # string_of_nat (nat (- i)) else string_of_nat (nat i))"

definition std_Date_valueOf :: "string option \<Rightarrow> apex_exn + date" where
  "std_Date_valueOf x =
     (case x of
        None \<Rightarrow> Inl (NullPointerException ''Argument cannot be null.'')
      | Some cs \<Rightarrow>
          (case iso_date cs of
             None \<Rightarrow> Inl (TypeException (''Invalid date: '' @ cs))
           | Some d \<Rightarrow> Inr d))"

definition std_Decimal_valueOf :: "string option \<Rightarrow> apex_exn + decimal" where
  "std_Decimal_valueOf x =
     (case x of
        None \<Rightarrow> Inl (NullPointerException ''Argument cannot be null.'')
      | Some cs \<Rightarrow>
          (case plain_decimal cs of
             None \<Rightarrow> Inl (TypeException (''Invalid decimal: '' @ cs))
           | Some q \<Rightarrow> Inr q))"

fun std_String_valueOf :: "apex_obj \<Rightarrow> string option" where
  "std_String_valueOf ANull = None"
| "std_String_valueOf (AString cs) = Some cs"
| "std_String_valueOf (AInteger i) = Some (string_of_int i)"
| "std_String_valueOf (ABoolean b) = Some (if b then ''true'' else ''false'')"

definition std_getDay :: "string \<Rightarrow> nat option" where
  "std_getDay cs = map_option (\<lambda>d. nat ((d + 4) mod 7)) (iso_date cs)"

definition std :: platform where
  "std =
     \<lparr>Date_valueOf = std_Date_valueOf,
      Decimal_valueOf = std_Decimal_valueOf,
      String_valueOf = std_String_valueOf,
      cast_failure = (\<lambda>x. TypeException ''Invalid conversion from runtime type to String''),
      getDay = std_getDay\<rparr>"


subsection \<open>Notions used in the statements\<close>

text \<open>The keys of the seven hour entries, in the order in which lines 38 to 44 read them.\<close>

definition hour_keys :: "string list" where
  "hour_keys =
     [''sundayHours'', ''mondayHours'', ''tuesdayHours'', ''wednesdayHours'',
      ''thursdayHours'', ''fridayHours'', ''saturdayHours'']"

text \<open>What \<^verbatim>\<open>get\<close> finds in Apex for a property of the JavaScript argument.\<close>

fun apex_of :: "jsval \<Rightarrow> apex_obj" where
  "apex_of JUndefined = ANull"
| "apex_of JNull = ANull"
| "apex_of (JBool b) = ABoolean b"
| "apex_of (JNum n) = AInteger n"
| "apex_of (JStr s) = AString s"

text \<open>A sequence of input events on the hour fields, handled one after the other.\<close>

fun handleInputChanges :: "(string option \<times> string) list \<Rightarrow> HourTracker \<Rightarrow> HourTracker" where
  "handleInputChanges [] this = this"
| "handleInputChanges ((day, v) # evs) this = handleInputChanges evs (handleInputChange day v this)"

text \<open>The seven day names that \<^verbatim>\<open>handleInputChange\<close> compares with.\<close>

definition day_names :: "string list" where
  "day_names =
     [''sunday'', ''monday'', ''tuesday'', ''wednesday'', ''thursday'', ''friday'', ''saturday'']"

text \<open>Whether a trace contains a published message, and whether it contains a remote call.\<close>

fun is_Publish :: "effect \<Rightarrow> bool" where
  "is_Publish (Publish msg) = True"
| "is_Publish e = False"

fun is_Apex_saveHours :: "effect \<Rightarrow> bool" where
  "is_Apex_saveHours (Apex_saveHours d) = True"
| "is_Apex_saveHours e = False"


subsection \<open>Concrete inputs\<close>

text \<open>
  Scenario A: the user picks 2024-01-06, a Saturday, and types the hours; \<open>week_A\<close> is the
  form at that point, \<open>request_A\<close> the map that reaches Apex and \<open>stored_A\<close> the table
  after the call on the empty table. 2024-01-06 is day 19728.
\<close>

definition week_A :: HourTracker where
  "week_A =
     \<lparr>sundayDate = JStr ''2024-01-06'', showTable = True,
      sundayHours = JStr ''8'', mondayHours = JStr ''8'', tuesdayHours = JStr ''8'',
      wednesdayHours = JStr ''8'', thursdayHours = JStr ''8'', fridayHours = JStr ''4'',
      saturdayHours = JNum 0\<rparr>"

definition typing_A :: "(string option \<times> string) list" where
  "typing_A =
     [(Some ''sunday'', ''8''), (Some ''monday'', ''8''), (Some ''tuesday'', ''8''),
      (Some ''wednesday'', ''8''), (Some ''thursday'', ''8''), (Some ''friday'', ''4'')]"

definition request_A :: apex_map where
  "request_A = marshal (hourData week_A)"

definition stored_A :: store where
  "stored_A =
     [\<lparr>Id' = Some 0, Sunday_Date__c = 19729,
       Sunday_Hours__c = 8, Monday_Hours__c = 8, Tuesday_Hours__c = 8,
       Wednesday_Hours__c = 8, Thursday_Hours__c = 8, Friday_Hours__c = 4,
       Saturday_Hours__c = 0\<rparr>]"

text \<open>The same week again, now with text in the Sunday field; and the week after.\<close>

definition request_B :: apex_map where
  "request_B = marshal (hourData (week_A\<lparr>sundayHours := JStr ''abc''\<rparr>))"

definition request_C :: apex_map where
  "request_C = marshal (hourData (week_A\<lparr>sundayDate := JStr ''2024-01-13''\<rparr>))"

text \<open>Scenario D, and the same text in the Monday field instead; a negative number.\<close>

definition week_D :: HourTracker where
  "week_D = week_A\<lparr>sundayHours := JStr ''abc''\<rparr>"

definition week_D' :: HourTracker where
  "week_D' = week_A\<lparr>mondayHours := JStr ''abc''\<rparr>"

definition week_negative :: HourTracker where
  "week_negative = week_A\<lparr>sundayHours := JStr ''-3''\<rparr>"

text \<open>Two tables with the same three rows, inserted in different orders.\<close>

definition week_row :: "date \<Rightarrow> HourTracker__c" where
  "week_row d =
     \<lparr>Id' = None, Sunday_Date__c = d,
      Sunday_Hours__c = 8, Monday_Hours__c = 8, Tuesday_Hours__c = 8,
      Wednesday_Hours__c = 8, Thursday_Hours__c = 8, Friday_Hours__c = 4,
      Saturday_Hours__c = 0\<rparr>"

definition table_1 :: store where
  "table_1 = [week_row 19743, week_row 19729, week_row 19736]"

definition table_2 :: store where
  "table_2 = [week_row 19736, week_row 19743, week_row 19729]"

text \<open>The display after it has loaded the table of scenario A.\<close>

definition display_A :: HourTrackerDisplay where
  "display_A =
     \<lparr>hoursData = map to_row stored_A,
      wiredHoursResult = Some \<lparr>data = Some stored_A, error = None\<rparr>\<rparr>"


section \<open>Properties\<close>

lemmas std_defs =
  std_def std_Date_valueOf_def std_Decimal_valueOf_def std_getDay_def iso_date_def
  digits_def digit_def days_from_civil_def days_in_month_def leap_year_def
  plain_decimal_def unsigned_decimal_def string_of_int_def

lemmas request_defs =
  request_A_def request_B_def request_C_def week_A_def week_D_def week_D'_def
  week_negative_def hourData_def marshal_def List.map_filter_def

lemmas saveHours_defs =
  saveHours_def saveHours_try_def sundayDate_of_def hours_of_def get_def cast_String_def
  andThen_def addDays_def existingRecords_def insert_row_def

subsection \<open>Facts about \<^verbatim>\<open>saveHours\<close>\<close>

lemma andThen_Inr_iff: "andThen r f = Inr y \<longleftrightarrow> (\<exists>v. r = Inr v \<and> f v = Inr y)"
  by (cases r) (simp_all add: andThen_def)

text \<open>The call succeeds exactly when every step does, and then appends one row.\<close>

lemma saveHours_try_Inr_iff:
  "saveHours_try P m s = Inr s' \<longleftrightarrow>
     (\<exists>d su mo tu we th fr sa.
        sundayDate_of P m = Inr d \<and> existingRecords s d = [] \<and>
        hours_of P m ''sundayHours'' = Inr su \<and>
        hours_of P m ''mondayHours'' = Inr mo \<and>
        hours_of P m ''tuesdayHours'' = Inr tu \<and>
        hours_of P m ''wednesdayHours'' = Inr we \<and>
        hours_of P m ''thursdayHours'' = Inr th \<and>
        hours_of P m ''fridayHours'' = Inr fr \<and>
        hours_of P m ''saturdayHours'' = Inr sa \<and>
        s' = s @ [\<lparr>Id' = Some (length s), Sunday_Date__c = d,
          Sunday_Hours__c = su, Monday_Hours__c = mo, Tuesday_Hours__c = tu,
          Wednesday_Hours__c = we, Thursday_Hours__c = th, Friday_Hours__c = fr,
          Saturday_Hours__c = sa\<rparr>])"
  unfolding saveHours_try_def andThen_Inr_iff
  by (auto simp: andThen_Inr_iff insert_row_def)

lemma saveHours_Inr_iff: "saveHours P m s = (Inr u, s') \<longleftrightarrow> saveHours_try P m s = Inr s'"
  by (auto simp: saveHours_def split: sum.splits)

lemma saveHours_Inl: "saveHours P m s = (Inl e, s') \<Longrightarrow> s' = s"
  by (auto simp: saveHours_def split: sum.splits)

lemma saveHours_store:
  "snd (saveHours P m s) = s \<or> (\<exists>r. snd (saveHours P m s) = s @ [r])"
  by (auto simp: saveHours_def saveHours_try_Inr_iff split: sum.splits)

lemma saveHours_keeps_rows: "set s \<subseteq> set (snd (saveHours P m s))"
  using saveHours_store [of P m s] by auto

lemma saveHours_all_keeps_rows: "set s \<subseteq> set (saveHours_all P ms s)"
proof (induction ms arbitrary: s)
  case Nil
  show ?case by simp
next
  case (Cons m ms)
  have "set s \<subseteq> set (snd (saveHours P m s))"
    by (rule saveHours_keeps_rows)
  also have "\<dots> \<subseteq> set (saveHours_all P ms (snd (saveHours P m s)))"
    by (rule Cons.IH)
  finally show ?case by simp
qed

lemma saveHours_duplicate:
  assumes "sundayDate_of P m = Inr d" and "r \<in> set s" and "Sunday_Date__c r = d"
  shows "saveHours P m s = (Inl (AuraHandledException duplicate_message), s)"
proof -
  from assms(2,3) have "existingRecords s d \<noteq> []"
    by (auto simp: existingRecords_def filter_empty_conv)
  with assms(1) show ?thesis
    by (simp add: saveHours_def saveHours_try_def andThen_def)
qed

lemma hours_of_failure:
  assumes "k \<in> set hour_keys" and "hours_of P m k = Inl x"
  shows "\<exists>e. saveHours P m s = (Inl e, s)"
proof (cases "saveHours_try P m s")
  case (Inl e)
  then show ?thesis by (simp add: saveHours_def)
next
  case (Inr s')
  then have "\<forall>k \<in> set hour_keys. \<exists>q. hours_of P m k = Inr q"
    unfolding saveHours_try_Inr_iff hour_keys_def by auto
  with assms show ?thesis by fastforce
qed

text \<open>The argument as Apex reads it.\<close>

lemma marshal_Cons:
  "marshal ((k, v) # obj) = (if v = JUndefined then marshal obj else (k, apex_of v) # marshal obj)"
  by (cases v) (simp_all add: marshal_def map_filter_simps)

lemma map_of_marshal_None: "k \<notin> fst ` set obj \<Longrightarrow> map_of (marshal obj) k = None"
proof (induction obj)
  case Nil
  show ?case by (simp add: marshal_def map_filter_simps)
next
  case (Cons kv obj)
  obtain k' v where kv: "kv = (k', v)" by (cases kv)
  from Cons show ?case
    unfolding kv marshal_Cons by auto
qed

lemma get_marshal:
  "distinct (map fst obj) \<Longrightarrow> get (marshal obj) k = apex_of (property obj k)"
proof (induction obj)
  case Nil
  show ?case by (simp add: marshal_def get_def property_def map_filter_simps)
next
  case (Cons kv obj)
  obtain k' v where kv: "kv = (k', v)" by (cases kv)
  from Cons.prems have "k' \<notin> fst ` set obj" and "distinct (map fst obj)"
    by (simp_all add: kv)
  then have "map_of (marshal obj) k' = None" and "map_of obj k' = None"
    and "get (marshal obj) k = apex_of (property obj k)"
    by (simp_all add: map_of_marshal_None map_of_eq_None_iff Cons.IH)
  then show ?case
    unfolding kv marshal_Cons by (auto simp: get_def property_def)
qed

lemma distinct_hourData: "distinct (map fst (hourData this))"
  by (simp add: hourData_def)

lemma property_hourData_sundayDate: "property (hourData this) ''sundayDate'' = sundayDate this"
  by (simp add: property_def hourData_def)

lemma sundayDate_of_hourData:
  "sundayDate_of P (marshal (hourData this)) =
     andThen (cast_String P (apex_of (sundayDate this))) (\<lambda>s.
     andThen (Date_valueOf P s) (\<lambda>d. Inr (addDays d 1)))"
  by (simp add: sundayDate_of_def get_marshal distinct_hourData property_hourData_sundayDate)

subsection \<open>Uniqueness of the week\<close>

text \<open>
  Claim C1. After a call of \<^verbatim>\<open>saveHours\<close> that succeeded for the week starting on \<open>D\<close>,
  and after any number of further calls, every call whose date again gives \<open>D\<close> throws the
  \<^verbatim>\<open>AuraHandledException\<close> with the duplicate message and leaves the table, hence also the
  number of its rows, as it was.
\<close>

theorem saveHours_unique_week:
  assumes "saveHours P m1 s = (Inr (), s1)"
    and "sundayDate_of P m1 = Inr D"
    and "s2 = saveHours_all P ms s1"
    and "sundayDate_of P m2 = Inr D"
  shows "saveHours P m2 s2 = (Inl (AuraHandledException duplicate_message), s2)
    \<and> length (snd (saveHours P m2 s2)) = length s2"
proof -
  from assms(1) have "saveHours_try P m1 s = Inr s1"
    by (simp add: saveHours_Inr_iff)
  then obtain d r where "sundayDate_of P m1 = Inr d" "Sunday_Date__c r = d" "s1 = s @ [r]"
    unfolding saveHours_try_Inr_iff by fastforce
  with assms(2) have "r \<in> set s1" and "Sunday_Date__c r = D"
    by auto
  moreover have "set s1 \<subseteq> set s2"
    unfolding assms(3) by (rule saveHours_all_keeps_rows)
  ultimately have "r \<in> set s2"
    by blast
  have "saveHours P m2 s2 = (Inl (AuraHandledException duplicate_message), s2)"
    using assms(4) \<open>r \<in> set s2\<close> \<open>Sunday_Date__c r = D\<close> by (rule saveHours_duplicate)
  then show ?thesis by simp
qed

text \<open>
  Scenario B: the week of scenario A is stored, the following week is stored, and the week
  of scenario A is submitted again, with text for hours.
\<close>

theorem saveHours_unique_week_witness:
  "saveHours std request_A [] = (Inr (), stored_A)
   \<and> sundayDate_of std request_A = Inr 19729
   \<and> sundayDate_of std request_B = Inr 19729
   \<and> length (saveHours_all std [request_C] stored_A) = 2
   \<and> saveHours std request_B (saveHours_all std [request_C] stored_A) =
       (Inl (AuraHandledException duplicate_message), saveHours_all std [request_C] stored_A)"
proof -
  have h1: "saveHours std request_A [] = (Inr (), stored_A)"
    by (simp add: saveHours_defs request_defs std_defs stored_A_def)
  have h2: "sundayDate_of std request_A = Inr 19729"
    by (simp add: saveHours_defs request_defs std_defs)
  have h3: "sundayDate_of std request_B = Inr 19729"
    by (simp add: saveHours_defs request_defs std_defs)
  have h4: "length (saveHours_all std [request_C] stored_A) = 2"
    by (simp add: saveHours_defs request_defs std_defs stored_A_def)
  show ?thesis
    using saveHours_unique_week [OF h1 h2 refl h3, of "[request_C]"] h1 h2 h3 h4 by simp
qed

subsection \<open>Facts about the form\<close>

lemma handleInputChange_sundayDate [simp]:
  "sundayDate (handleInputChange day v this) = sundayDate this"
  by (simp add: handleInputChange_def)

lemma handleInputChanges_sundayDate [simp]:
  "sundayDate (handleInputChanges evs this) = sundayDate this"
  by (induction evs this rule: handleInputChanges.induct) simp_all

lemma call_saveHours_Inr_iff:
  "call_saveHours P net obj s = (Inr u, s') \<longleftrightarrow>
     net = Delivered \<and> saveHours_try P (marshal obj) s = Inr s'"
  by (auto simp: call_saveHours_def saveHours_def split: transport.splits sum.splits)

lemma call_saveHours_Inl: "call_saveHours P net obj s = (Inl msg, s') \<Longrightarrow> s' = s"
  by (auto simp: call_saveHours_def saveHours_def split: transport.splits sum.splits)

lemma handleSubmit_store: "handleSubmit P net this s = (this', s', tr) \<Longrightarrow>
    s' = snd (call_saveHours P net (hourData this) s)"
  by (auto simp: handleSubmit_def split: prod.splits sum.splits)

subsection \<open>The stored week start\<close>

text \<open>
  Claim C2. The user selects a date \<open>v\<close> that \<^verbatim>\<open>handleDateChange\<close> accepts (its day of
  the week is 6), types into hour fields and submits. If the submission stores a row, then
  \<open>v\<close> is a date for \<^verbatim>\<open>Date.valueOf\<close>, exactly one row was added, and its
  \<^verbatim>\<open>Sunday_Date__c\<close> is that date plus one day.
\<close>

theorem stored_weekStart_is_selected_date_plus_one:
  assumes "getDay P v = Some 6"
    and "this1 = handleInputChanges evs (fst (handleDateChange P v this0))"
    and "handleSubmit P net this1 s = (this2, s', tr)"
    and "s' \<noteq> s"
  shows "\<exists>d r. Date_valueOf P (Some v) = Inr d \<and> s' = s @ [r] \<and> Sunday_Date__c r = d + 1"
proof -
  from assms(1,2) have date: "sundayDate this1 = JStr v"
    by (simp add: handleDateChange_def)
  from assms(3) have s': "s' = snd (call_saveHours P net (hourData this1) s)"
    by (rule handleSubmit_store)
  obtain res where res: "call_saveHours P net (hourData this1) s = (res, s')"
    using s' by (cases "call_saveHours P net (hourData this1) s") simp
  have "\<exists>u. res = Inr u"
  proof (cases res)
    case (Inl msg)
    with res assms(4) show ?thesis
      by (auto dest: call_saveHours_Inl)
  next
    case (Inr u)
    then show ?thesis by blast
  qed
  with res have "saveHours_try P (marshal (hourData this1)) s = Inr s'"
    by (auto simp: call_saveHours_Inr_iff)
  then obtain D r where D: "sundayDate_of P (marshal (hourData this1)) = Inr D"
    and r: "s' = s @ [r]" "Sunday_Date__c r = D"
    unfolding saveHours_try_Inr_iff by fastforce
  from D date obtain d where "Date_valueOf P (Some v) = Inr d" and "D = d + 1"
    by (auto simp: sundayDate_of_hourData cast_String_def andThen_Inr_iff addDays_def)
  with r show ?thesis by blast
qed

text \<open>
  Scenario A: 2024-01-06 is selected on a fresh form, the hours are typed, and the form is
  submitted to the empty table: the row stored is for 2024-01-07, day 19729.
\<close>

theorem stored_weekStart_is_selected_date_plus_one_witness:
  "getDay std ''2024-01-06'' = Some 6
   \<and> handleInputChanges typing_A (fst (handleDateChange std ''2024-01-06'' HourTracker_init)) = week_A
   \<and> fst (snd (handleSubmit std Delivered week_A [])) = stored_A
   \<and> Date_valueOf std (Some ''2024-01-06'') = Inr 19728
   \<and> Sunday_Date__c (hd stored_A) = 19728 + 1"
proof -
  have h1: "getDay std ''2024-01-06'' = Some 6"
    by (simp add: std_defs)
  have h2: "week_A = handleInputChanges typing_A (fst (handleDateChange std ''2024-01-06'' HourTracker_init))"
    by (simp add: week_A_def typing_A_def handleInputChange_def handleDateChange_def h1
        HourTracker_init_def)
  have h3: "handleSubmit std Delivered week_A [] =
      ((resetForm week_A)\<lparr>showTable := False\<rparr>, stored_A,
       [Apex_saveHours (hourData week_A),
        ShowToast ''Success'' ''Hours saved successfully!'' ''success'', publishRefreshMessage])"
    by (simp add: handleSubmit_def call_saveHours_def handleSubmit_then_def
        saveHours_defs request_defs std_defs stored_A_def)
  have h4: "stored_A \<noteq> []"
    by (simp add: stored_A_def)
  have h5: "Date_valueOf std (Some ''2024-01-06'') = Inr 19728"
    by (simp add: std_defs)
  from stored_weekStart_is_selected_date_plus_one [OF h1 h2 h3 h4]
  obtain d r where d: "Date_valueOf std (Some ''2024-01-06'') = Inr d"
    and r: "stored_A = [] @ [r]" "Sunday_Date__c r = d + 1"
    by blast
  from arg_cong [OF r(1), of hd] have "hd stored_A = r"
    by simp
  moreover from d h5 have "d = 19728"
    by simp
  ultimately have "Sunday_Date__c (hd stored_A) = 19728 + 1"
    using r(2) by simp
  with h1 h2 h3 h5 show ?thesis
    by simp
qed

subsection \<open>Order of the effects of a submission\<close>

text \<open>
  Claim C3. In every run of \<^verbatim>\<open>handleSubmit\<close> the trace starts with the remote call.
  When the call is confirmed, the trace continues with the success toast and then the
  refresh message, and the form is reset. When it is not confirmed, whatever the reason
  (the date missing or not a date, the week already stored, hours that are no decimal, the
  call lost on the way), no message is published, the form is exactly as before and so is
  the table. Conversely a published message in the trace means that the call was
  confirmed.
\<close>

theorem handleSubmit_publishes_and_resets_only_after_success:
  assumes "handleSubmit P net this s = (this', s', tr)"
    and "call_saveHours P net (hourData this) s = (res, s1)"
  shows "hd tr = Apex_saveHours (hourData this)
    \<and> (res = Inr () \<longrightarrow>
         tr = [Apex_saveHours (hourData this),
               ShowToast ''Success'' ''Hours saved successfully!'' ''success'',
               Publish [(''refresh'', JBool True)]]
         \<and> this' = (resetForm this)\<lparr>showTable := False\<rparr> \<and> s' = s1)
    \<and> (res \<noteq> Inr () \<longrightarrow>
         \<not> list_ex is_Publish tr \<and> this' = this \<and> s' = s
         \<and> length (filter is_Apex_saveHours tr) = 1)
    \<and> (list_ex is_Publish tr \<longrightarrow> res = Inr ())"
proof (cases res)
  case (Inl msg)
  with assms(2) have "s1 = s"
    by (auto dest: call_saveHours_Inl)
  with assms Inl show ?thesis
    by (auto simp: handleSubmit_def handleSubmit_catch_def)
next
  case (Inr u)
  with assms show ?thesis
    by (auto simp: handleSubmit_def handleSubmit_then_def publishRefreshMessage_def)
qed

text \<open>
  The successful run of scenario A, and four runs that fail: no date on the fresh form,
  text for hours, the week already stored, and the call lost on the way.
\<close>

theorem handleSubmit_publishes_and_resets_only_after_success_witness:
  "handleSubmit std Delivered week_A [] =
     ((resetForm week_A)\<lparr>showTable := False\<rparr>, stored_A,
      [Apex_saveHours (hourData week_A),
       ShowToast ''Success'' ''Hours saved successfully!'' ''success'',
       Publish [(''refresh'', JBool True)]])
   \<and> call_saveHours std Delivered (hourData week_A) [] = (Inr (), stored_A)
   \<and> handleSubmit std Delivered HourTracker_init [] =
       (HourTracker_init, [],
        [Apex_saveHours (hourData HourTracker_init),
         ShowToast ''Error'' ''Error logging hours: Argument cannot be null.'' ''error''])
   \<and> handleSubmit std Delivered week_D [] =
       (week_D, [],
        [Apex_saveHours (hourData week_D),
         ShowToast ''Error'' ''Error logging hours: Invalid decimal: abc'' ''error''])
   \<and> handleSubmit std Delivered week_A stored_A =
       (week_A, stored_A,
        [Apex_saveHours (hourData week_A),
         ShowToast ''Error'' (''Error logging hours: '' @ duplicate_message) ''error''])
   \<and> handleSubmit std (Failed ''offline'') week_A [] =
       (week_A, [],
        [Apex_saveHours (hourData week_A),
         ShowToast ''Error'' ''Error logging hours: offline'' ''error''])
   \<and> (fst (handleSubmit std Delivered week_A stored_A) = week_A
      \<and> fst (snd (handleSubmit std Delivered week_A stored_A)) = stored_A
      \<and> \<not> list_ex is_Publish (snd (snd (handleSubmit std Delivered week_A stored_A))))"
proof -
  have c1: "call_saveHours std Delivered (hourData week_A) [] = (Inr (), stored_A)"
    by (simp add: call_saveHours_def saveHours_defs request_defs std_defs stored_A_def)
  have c2: "call_saveHours std Delivered (hourData HourTracker_init) [] =
      (Inl ''Argument cannot be null.'', [])"
    by (simp add: call_saveHours_def saveHours_defs request_defs std_defs HourTracker_init_def)
  have c3: "call_saveHours std Delivered (hourData week_D) [] =
      (Inl ''Invalid decimal: abc'', [])"
    by (simp add: call_saveHours_def saveHours_defs request_defs std_defs)
  have c4: "call_saveHours std Delivered (hourData week_A) stored_A =
      (Inl duplicate_message, stored_A)"
    by (simp add: call_saveHours_def saveHours_defs request_defs std_defs stored_A_def)
  have c5: "call_saveHours std (Failed ''offline'') (hourData week_A) [] = (Inl ''offline'', [])"
    by (simp add: call_saveHours_def)
  have r1: "handleSubmit std Delivered week_A [] =
      ((resetForm week_A)\<lparr>showTable := False\<rparr>, stored_A,
       [Apex_saveHours (hourData week_A),
        ShowToast ''Success'' ''Hours saved successfully!'' ''success'',
        Publish [(''refresh'', JBool True)]])"
    using handleSubmit_publishes_and_resets_only_after_success [OF _ c1,
        of "fst (handleSubmit std Delivered week_A [])"
           "fst (snd (handleSubmit std Delivered week_A []))"
           "snd (snd (handleSubmit std Delivered week_A []))"]
    by (simp add: prod_eq_iff)
  have r2: "handleSubmit std Delivered HourTracker_init [] =
      (HourTracker_init, [],
       [Apex_saveHours (hourData HourTracker_init),
        ShowToast ''Error'' ''Error logging hours: Argument cannot be null.'' ''error''])"
    by (simp add: handleSubmit_def c2 handleSubmit_catch_def)
  have r3: "handleSubmit std Delivered week_D [] =
      (week_D, [],
       [Apex_saveHours (hourData week_D),
        ShowToast ''Error'' ''Error logging hours: Invalid decimal: abc'' ''error''])"
    by (simp add: handleSubmit_def c3 handleSubmit_catch_def)
  have r4: "handleSubmit std Delivered week_A stored_A =
      (week_A, stored_A,
       [Apex_saveHours (hourData week_A),
        ShowToast ''Error'' (''Error logging hours: '' @ duplicate_message) ''error''])"
    by (simp add: handleSubmit_def c4 handleSubmit_catch_def)
  have r5: "handleSubmit std (Failed ''offline'') week_A [] =
      (week_A, [],
       [Apex_saveHours (hourData week_A),
        ShowToast ''Error'' ''Error logging hours: offline'' ''error''])"
    by (simp add: handleSubmit_def c5 handleSubmit_catch_def)
  have f4: "fst (handleSubmit std Delivered week_A stored_A) = week_A
      \<and> fst (snd (handleSubmit std Delivered week_A stored_A)) = stored_A
      \<and> \<not> list_ex is_Publish (snd (snd (handleSubmit std Delivered week_A stored_A)))"
    using handleSubmit_publishes_and_resets_only_after_success [OF _ c4,
        of "fst (handleSubmit std Delivered week_A stored_A)"
           "fst (snd (handleSubmit std Delivered week_A stored_A))"
           "snd (snd (handleSubmit std Delivered week_A stored_A))"]
    by (simp add: prod_eq_iff)
  from r1 c1 r2 r3 r4 r5 f4 show ?thesis
    by blast
qed

subsection \<open>Coercion of the hours\<close>

lemma saveHours_catch_message: "saveHours_catch x = AuraHandledException (getMessage x)"
  by (cases x) simp_all

lemma saveHours_throws_AuraHandledException:
  "saveHours P m s = (Inl e, s') \<Longrightarrow> \<exists>msg. e = AuraHandledException msg"
  by (auto simp: saveHours_def saveHours_catch_message split: sum.splits)

text \<open>
  When the date is fine and the week is new, the exception that leaves the method is made
  from the exception of the first hour entry, in the order of the source, that is no decimal.
\<close>

lemma saveHours_first_failure:
  assumes "sundayDate_of P m = Inr d" and "existingRecords s d = []"
    and "List.find (\<lambda>k. isl (hours_of P m k)) hour_keys = Some k"
    and "hours_of P m k = Inl x"
  shows "saveHours P m s = (Inl (AuraHandledException (getMessage x)), s)"
  using assms
  by (auto simp: hour_keys_def saveHours_def saveHours_try_def andThen_def
      saveHours_catch_message split: if_splits sum.splits)

text \<open>
  Claim C4, as the code has it. Each of the seven hour entries is turned into a decimal by
  \<^verbatim>\<open>Decimal.valueOf(String.valueOf(...))\<close>; its sign is not looked at. If one of them is
  no decimal, the call throws an \<^verbatim>\<open>AuraHandledException\<close> and the table stays as it
  was. When the date is fine and the week is new, the message of that exception is the
  message of the first entry that failed; it is made from the value alone, not from the
  day. A call that returns has added one row, which holds the seven decimals.
\<close>

theorem saveHours_coerces_all_hours_or_writes_nothing:
  "(\<forall>k \<in> set hour_keys. isl (hours_of P m k) \<longrightarrow>
      (\<exists>msg. saveHours P m s = (Inl (AuraHandledException msg), s)))
   \<and> (\<forall>d k x. sundayDate_of P m = Inr d \<and> existingRecords s d = []
        \<and> List.find (\<lambda>k. isl (hours_of P m k)) hour_keys = Some k
        \<and> Decimal_valueOf P (String_valueOf P (get m k)) = Inl x \<longrightarrow>
        saveHours P m s = (Inl (AuraHandledException (getMessage x)), s))
   \<and> (\<forall>s'. saveHours P m s = (Inr (), s') \<longrightarrow>
        (\<exists>r. s' = s @ [r]
          \<and> map (hours_of P m) hour_keys =
              map Inr [Sunday_Hours__c r, Monday_Hours__c r, Tuesday_Hours__c r,
                Wednesday_Hours__c r, Thursday_Hours__c r, Friday_Hours__c r,
                Saturday_Hours__c r]))"
proof (intro conjI ballI allI impI)
  fix k
  assume "k \<in> set hour_keys" and "isl (hours_of P m k)"
  then obtain x where "hours_of P m k = Inl x"
    by (cases "hours_of P m k") simp_all
  with \<open>k \<in> set hour_keys\<close> obtain e where e: "saveHours P m s = (Inl e, s)"
    using hours_of_failure by blast
  then obtain msg where "e = AuraHandledException msg"
    using saveHours_throws_AuraHandledException by blast
  with e show "\<exists>msg. saveHours P m s = (Inl (AuraHandledException msg), s)"
    by blast
next
  fix d k x
  assume "sundayDate_of P m = Inr d \<and> existingRecords s d = []
        \<and> List.find (\<lambda>k. isl (hours_of P m k)) hour_keys = Some k
        \<and> Decimal_valueOf P (String_valueOf P (get m k)) = Inl x"
  then show "saveHours P m s = (Inl (AuraHandledException (getMessage x)), s)"
    using saveHours_first_failure [of P m d s k x] by (simp add: hours_of_def)
next
  fix s'
  assume "saveHours P m s = (Inr (), s')"
  then have "saveHours_try P m s = Inr s'"
    by (simp add: saveHours_Inr_iff)
  then show "\<exists>r. s' = s @ [r]
          \<and> map (hours_of P m) hour_keys =
              map Inr [Sunday_Hours__c r, Monday_Hours__c r, Tuesday_Hours__c r,
                Wednesday_Hours__c r, Thursday_Hours__c r, Friday_Hours__c r,
                Saturday_Hours__c r]"
    unfolding saveHours_try_Inr_iff hour_keys_def by fastforce
qed

text \<open>
  Scenario D (text in the Sunday field), the same text in the Monday field, and scenario A.
\<close>

theorem saveHours_coerces_all_hours_or_writes_nothing_witness:
  "''sundayHours'' \<in> set hour_keys
   \<and> isl (hours_of std (marshal (hourData week_D)) ''sundayHours'')
   \<and> saveHours std (marshal (hourData week_D)) [] =
       (Inl (AuraHandledException ''Invalid decimal: abc''), [])
   \<and> List.find (\<lambda>k. isl (hours_of std (marshal (hourData week_D')) k)) hour_keys =
       Some ''mondayHours''
   \<and> saveHours std (marshal (hourData week_D')) [] =
       (Inl (AuraHandledException ''Invalid decimal: abc''), [])
   \<and> saveHours std request_A [] = (Inr (), stored_A)
   \<and> map (hours_of std request_A) hour_keys = map Inr [8, 8, 8, 8, 8, 4, 0]"
proof -
  let ?D = "marshal (hourData week_D)" and ?D' = "marshal (hourData week_D')"
  have k: "''sundayHours'' \<in> set hour_keys"
    by (simp add: hour_keys_def)
  have a1: "isl (hours_of std ?D ''sundayHours'')"
    by (simp add: saveHours_defs request_defs std_defs)
  have a2: "sundayDate_of std ?D = Inr 19729" "sundayDate_of std ?D' = Inr 19729"
    by (simp_all add: saveHours_defs request_defs std_defs)
  have a3: "existingRecords [] 19729 = []"
    by (simp add: existingRecords_def)
  have a4: "List.find (\<lambda>k. isl (hours_of std ?D k)) hour_keys = Some ''sundayHours''"
    by (simp add: hour_keys_def saveHours_defs request_defs std_defs)
  have a5: "List.find (\<lambda>k. isl (hours_of std ?D' k)) hour_keys = Some ''mondayHours''"
    by (simp add: hour_keys_def saveHours_defs request_defs std_defs)
  have a6: "Decimal_valueOf std (String_valueOf std (get ?D ''sundayHours'')) =
      Inl (TypeException ''Invalid decimal: abc'')"
    by (simp add: saveHours_defs request_defs std_defs)
  have a7: "Decimal_valueOf std (String_valueOf std (get ?D' ''mondayHours'')) =
      Inl (TypeException ''Invalid decimal: abc'')"
    by (simp add: saveHours_defs request_defs std_defs)
  have a8: "saveHours std request_A [] = (Inr (), stored_A)"
    by (simp add: saveHours_defs request_defs std_defs stored_A_def)
  note thm_D = saveHours_coerces_all_hours_or_writes_nothing [of std ?D "[]"]
  note thm_D' = saveHours_coerces_all_hours_or_writes_nothing [of std ?D' "[]"]
  note thm_A = saveHours_coerces_all_hours_or_writes_nothing [of std request_A "[]"]
  from thm_D a2(1) a3 a4 a6
  have b1: "saveHours std ?D [] = (Inl (AuraHandledException ''Invalid decimal: abc''), [])"
    by (metis getMessage.simps(2))
  from thm_D' a2(2) a3 a5 a7
  have b2: "saveHours std ?D' [] = (Inl (AuraHandledException ''Invalid decimal: abc''), [])"
    by (metis getMessage.simps(2))
  from thm_A a8 obtain r where "stored_A = [] @ [r]"
    and "map (hours_of std request_A) hour_keys =
      map Inr [Sunday_Hours__c r, Monday_Hours__c r, Tuesday_Hours__c r,
        Wednesday_Hours__c r, Thursday_Hours__c r, Friday_Hours__c r, Saturday_Hours__c r]"
    by blast
  then have b3: "map (hours_of std request_A) hour_keys = map Inr [8, 8, 8, 8, 8, 4, 0]"
    by (auto simp: stored_A_def)
  from k a1 b1 a5 b2 a8 b3 show ?thesis
    by blast
qed

text \<open>
  The claim as the specification words it asks for non-negative decimals and for an error
  that names the day. A negative number is stored as it is, and text gives the same
  exception in the Sunday field as in the Monday field.
\<close>

theorem saveHours_negative_hours_counterexample:
  "saveHours std (marshal (hourData week_negative)) [] =
     (Inr (), [(week_row 19729)\<lparr>Id' := Some 0, Sunday_Hours__c := - 3\<rparr>])
   \<and> fst (saveHours std (marshal (hourData week_D)) []) =
       Inl (AuraHandledException ''Invalid decimal: abc'')
   \<and> fst (saveHours std (marshal (hourData week_D')) []) =
       Inl (AuraHandledException ''Invalid decimal: abc'')"
  by (simp add: saveHours_defs request_defs std_defs week_row_def)

subsection \<open>The refresh message\<close>

lemma refreshData_trace: "RefreshApex \<in> set (snd (refreshData net s this))"
  by (simp add: refreshData_def split: prod.splits)

lemma refreshData_hd: "hd (snd (refreshData net s this)) = RefreshApex"
  by (simp add: refreshData_def split: prod.splits)

lemma refreshData_Delivered:
  "hoursData (fst (refreshData Delivered s this)) = map to_row (getAllHours s)"
  by (simp add: refreshData_def wiredHours_def wire_getAllHours_def)

text \<open>
  Claim C5, as the code has it. \<^verbatim>\<open>handleMessage\<close> tests \<^verbatim>\<open>message.refresh\<close> for
  truthiness. When it is truthy (in particular when it is \<^verbatim>\<open>true\<close>) the data is fetched
  again, and the rows become those of the table when the query gets through; when it is
  falsy or absent the message changes nothing and nothing is fetched.
\<close>

theorem handleMessage_refreshes_iff_truthy:
  "(truthy (property message ''refresh'') \<longrightarrow>
      handleMessage net s message this = refreshData net s this
      \<and> hd (snd (handleMessage net s message this)) = RefreshApex
      \<and> hoursData (fst (handleMessage Delivered s message this)) = map to_row (getAllHours s))
   \<and> (\<not> truthy (property message ''refresh'') \<longrightarrow>
      handleMessage net s message this = (this, []))
   \<and> (RefreshApex \<in> set (snd (handleMessage net s message this)) \<longleftrightarrow>
      truthy (property message ''refresh''))
   \<and> (property message ''refresh'' = JBool True \<longrightarrow>
      RefreshApex \<in> set (snd (handleMessage net s message this)))"
  by (simp add: handleMessage_def refreshData_trace refreshData_hd refreshData_Delivered)

text \<open>
  The message of \<^verbatim>\<open>publishRefreshMessage\<close>, and three messages that are ignored.
\<close>

theorem handleMessage_refreshes_iff_truthy_witness:
  "truthy (property [(''refresh'', JBool True)] ''refresh'')
   \<and> hoursData (fst (handleMessage Delivered stored_A [(''refresh'', JBool True)]
        HourTrackerDisplay_init)) = map to_row stored_A
   \<and> \<not> truthy (property [(''refresh'', JBool False)] ''refresh'')
   \<and> handleMessage Delivered stored_A [(''refresh'', JBool False)] HourTrackerDisplay_init =
       (HourTrackerDisplay_init, [])
   \<and> handleMessage Delivered stored_A [] HourTrackerDisplay_init =
       (HourTrackerDisplay_init, [])
   \<and> handleMessage Delivered stored_A [(''refresh'', JStr [])] HourTrackerDisplay_init =
       (HourTrackerDisplay_init, [])"
proof -
  have t: "truthy (property [(''refresh'', JBool True)] ''refresh'')"
    by (simp add: property_def)
  have f: "\<not> truthy (property [(''refresh'', JBool False)] ''refresh'')"
    "\<not> truthy (property [] ''refresh'')"
    "\<not> truthy (property [(''refresh'', JStr [])] ''refresh'')"
    by (simp_all add: property_def)
  have g: "getAllHours stored_A = stored_A"
    by (simp add: getAllHours_def stored_A_def)
  from handleMessage_refreshes_iff_truthy
    [of "[(''refresh'', JBool True)]" Delivered stored_A HourTrackerDisplay_init, unfolded g] t
  have "hoursData (fst (handleMessage Delivered stored_A [(''refresh'', JBool True)]
        HourTrackerDisplay_init)) = map to_row stored_A"
    by blast
  moreover from handleMessage_refreshes_iff_truthy
    [of "[(''refresh'', JBool False)]" Delivered stored_A HourTrackerDisplay_init] f(1)
  have "handleMessage Delivered stored_A [(''refresh'', JBool False)] HourTrackerDisplay_init =
       (HourTrackerDisplay_init, [])"
    by blast
  moreover from handleMessage_refreshes_iff_truthy
    [of "[]" Delivered stored_A HourTrackerDisplay_init] f(2)
  have "handleMessage Delivered stored_A [] HourTrackerDisplay_init =
       (HourTrackerDisplay_init, [])"
    by blast
  moreover from handleMessage_refreshes_iff_truthy
    [of "[(''refresh'', JStr [])]" Delivered stored_A HourTrackerDisplay_init] f(3)
  have "handleMessage Delivered stored_A [(''refresh'', JStr [])] HourTrackerDisplay_init =
       (HourTrackerDisplay_init, [])"
    by blast
  ultimately show ?thesis
    using t f(1) by blast
qed

text \<open>
  The claim as the specification words it asks for \<^verbatim>\<open>refresh === true\<close>. A message whose
  \<^verbatim>\<open>refresh\<close> is the number 1 or a non-empty string is not \<^verbatim>\<open>true\<close>, and the data
  is fetched again all the same.
\<close>

theorem handleMessage_strict_true_counterexample:
  "property [(''refresh'', JNum 1)] ''refresh'' \<noteq> JBool True
   \<and> handleMessage Delivered stored_A [(''refresh'', JNum 1)] HourTrackerDisplay_init =
       (\<lparr>hoursData = map to_row stored_A,
         wiredHoursResult = Some \<lparr>data = Some stored_A, error = None\<rparr>\<rparr>, [RefreshApex])
   \<and> property [(''refresh'', JStr ''yes'')] ''refresh'' \<noteq> JBool True
   \<and> RefreshApex \<in> set (snd (handleMessage Delivered stored_A [(''refresh'', JStr ''yes'')]
       HourTrackerDisplay_init))"
  by (simp add: property_def handleMessage_def refreshData_def wiredHours_def
      wire_getAllHours_def getAllHours_def stored_A_def HourTrackerDisplay_init_def)

subsection \<open>Order of the rows fetched\<close>

lemma map_getAllHours: "map Sunday_Date__c (getAllHours s) = sort (map Sunday_Date__c s)"
  unfolding getAllHours_def by (rule properties_for_sort [symmetric]) simp_all

lemma getAllHours_distinct_dates:
  assumes "mset s' = mset s" and "distinct (map Sunday_Date__c s)"
  shows "getAllHours s' = getAllHours s"
  unfolding getAllHours_def
proof (rule sort_key_inj_key_eq)
  show "mset s' = mset (sort_key Sunday_Date__c s)"
    using assms(1) by simp
  from assms(1) have "set s' = set s"
    by (rule mset_eq_setD)
  with assms(2) show "inj_on Sunday_Date__c (set s')"
    by (simp add: distinct_map)
  show "sorted (map Sunday_Date__c (sort_key Sunday_Date__c s))"
    by simp
qed

text \<open>
  Claim C6. \<^verbatim>\<open>getAllHours\<close> returns the rows of the table, each as often as it is
  there, in ascending order of \<^verbatim>\<open>Sunday_Date__c\<close>. Two tables with the same rows,
  inserted in whatever order, give the same sequence of dates, and the same sequence of
  rows when no date occurs twice.
\<close>

theorem getAllHours_sorted_by_Sunday_Date:
  "sorted (map Sunday_Date__c (getAllHours s))
   \<and> mset (getAllHours s) = mset s
   \<and> (mset s' = mset s \<longrightarrow>
        map Sunday_Date__c (getAllHours s') = map Sunday_Date__c (getAllHours s))
   \<and> (mset s' = mset s \<and> distinct (map Sunday_Date__c s) \<longrightarrow>
        getAllHours s' = getAllHours s)"
proof (intro conjI impI)
  show "sorted (map Sunday_Date__c (getAllHours s))"
    by (simp add: getAllHours_def)
  show "mset (getAllHours s) = mset s"
    by (simp add: getAllHours_def)
next
  assume "mset s' = mset s"
  then have "mset (map Sunday_Date__c s') = mset (map Sunday_Date__c s)"
    by simp
  then have "sort (map Sunday_Date__c s') = sort (map Sunday_Date__c s)"
    by (intro properties_for_sort) simp_all
  then show "map Sunday_Date__c (getAllHours s') = map Sunday_Date__c (getAllHours s)"
    by (simp add: map_getAllHours)
next
  assume "mset s' = mset s \<and> distinct (map Sunday_Date__c s)"
  then show "getAllHours s' = getAllHours s"
    by (blast intro: getAllHours_distinct_dates)
qed

text \<open>Three weeks inserted in two different orders.\<close>

theorem getAllHours_sorted_by_Sunday_Date_witness:
  "mset table_2 = mset table_1
   \<and> distinct (map Sunday_Date__c table_1)
   \<and> getAllHours table_1 = [week_row 19729, week_row 19736, week_row 19743]
   \<and> getAllHours table_2 = [week_row 19729, week_row 19736, week_row 19743]
   \<and> sorted (map Sunday_Date__c (getAllHours table_2))"
proof -
  have m: "mset table_2 = mset table_1"
    by (simp add: table_1_def table_2_def add.commute add.left_commute)
  have d: "distinct (map Sunday_Date__c table_1)"
    by (simp add: table_1_def week_row_def)
  have g: "getAllHours table_1 = [week_row 19729, week_row 19736, week_row 19743]"
    by (simp add: getAllHours_def table_1_def week_row_def)
  note inst = getAllHours_sorted_by_Sunday_Date [of table_1 table_2]
  from inst m d have "getAllHours table_2 = getAllHours table_1"
    by blast
  moreover from getAllHours_sorted_by_Sunday_Date [of table_2 table_2]
  have "sorted (map Sunday_Date__c (getAllHours table_2))"
    by blast
  ultimately show ?thesis
    using m d g by simp
qed

subsection \<open>Submitting without a date\<close>

text \<open>
  Claim C7, as the code has it. \<^verbatim>\<open>handleSubmit\<close> does not look at the date: also when
  it is unset (\<^verbatim>\<open>undefined\<close> on a fresh form, the empty string after a rejected date,
  \<^verbatim>\<open>null\<close> after a reset) the remote call is made. On a platform whose
  \<^verbatim>\<open>Date.valueOf\<close> throws for \<^verbatim>\<open>null\<close> and for the empty string, the Apex method
  then fails at the date, before the query for duplicates and before any insert, with the
  message of that exception; the form shows it in an error toast, publishes nothing, and
  form and table stay as they were.
\<close>

theorem handleSubmit_without_date_fails_on_the_server:
  assumes "sundayDate this \<in> {JUndefined, JNull, JStr []}"
    and "isl (Date_valueOf P None)" and "isl (Date_valueOf P (Some []))"
  shows "\<exists>x. Date_valueOf P (if sundayDate this = JStr [] then Some [] else None) = Inl x
      \<and> sundayDate_of P (marshal (hourData this)) = Inl x
      \<and> saveHours P (marshal (hourData this)) s = (Inl (AuraHandledException (getMessage x)), s)
      \<and> handleSubmit P Delivered this s =
          (this, s,
           [Apex_saveHours (hourData this),
            ShowToast ''Error'' (''Error logging hours: '' @ getMessage x) ''error''])
      \<and> handleSubmit P (Failed m) this s =
          (this, s,
           [Apex_saveHours (hourData this),
            ShowToast ''Error'' (''Error logging hours: '' @ m) ''error''])"
proof -
  let ?arg = "if sundayDate this = JStr [] then Some [] else None"
  from assms obtain x where x: "Date_valueOf P ?arg = Inl x"
    by (cases "Date_valueOf P ?arg") (auto split: if_splits)
  from assms(1) have "cast_String P (apex_of (sundayDate this)) = Inr ?arg"
    by (auto simp: cast_String_def)
  with x have date: "sundayDate_of P (marshal (hourData this)) = Inl x"
    by (simp add: sundayDate_of_hourData andThen_def)
  then have save: "saveHours P (marshal (hourData this)) s =
      (Inl (AuraHandledException (getMessage x)), s)"
    by (simp add: saveHours_def saveHours_try_def andThen_def saveHours_catch_message)
  then have "handleSubmit P Delivered this s =
      (this, s,
       [Apex_saveHours (hourData this),
        ShowToast ''Error'' (''Error logging hours: '' @ getMessage x) ''error''])"
    by (simp add: handleSubmit_def call_saveHours_def handleSubmit_catch_def)
  moreover have "handleSubmit P (Failed m) this s =
      (this, s,
       [Apex_saveHours (hourData this),
        ShowToast ''Error'' (''Error logging hours: '' @ m) ''error''])"
    by (simp add: handleSubmit_def call_saveHours_def handleSubmit_catch_def)
  ultimately show ?thesis
    using x date save by blast
qed

text \<open>The fresh form, submitted to the table of scenario A.\<close>

theorem handleSubmit_without_date_fails_on_the_server_witness:
  "sundayDate HourTracker_init \<in> {JUndefined, JNull, JStr []}
   \<and> isl (Date_valueOf std None) \<and> isl (Date_valueOf std (Some []))
   \<and> saveHours std (marshal (hourData HourTracker_init)) stored_A =
       (Inl (AuraHandledException ''Argument cannot be null.''), stored_A)
   \<and> handleSubmit std Delivered HourTracker_init stored_A =
       (HourTracker_init, stored_A,
        [Apex_saveHours (hourData HourTracker_init),
         ShowToast ''Error'' ''Error logging hours: Argument cannot be null.'' ''error''])"
proof -
  have h1: "sundayDate HourTracker_init \<in> {JUndefined, JNull, JStr []}"
    by (simp add: HourTracker_init_def)
  have h2: "isl (Date_valueOf std None)" and h3: "isl (Date_valueOf std (Some []))"
    by (simp_all add: std_defs)
  have h4: "sundayDate HourTracker_init \<noteq> JStr []"
    by (simp add: HourTracker_init_def)
  have h5: "Date_valueOf std None = Inl (NullPointerException ''Argument cannot be null.'')"
    by (simp add: std_defs)
  from handleSubmit_without_date_fails_on_the_server [OF h1 h2 h3, of stored_A "[]"]
  obtain x where "Date_valueOf std None = Inl x"
    and "saveHours std (marshal (hourData HourTracker_init)) stored_A =
       (Inl (AuraHandledException (getMessage x)), stored_A)"
    and "handleSubmit std Delivered HourTracker_init stored_A =
       (HourTracker_init, stored_A,
        [Apex_saveHours (hourData HourTracker_init),
         ShowToast ''Error'' (''Error logging hours: '' @ getMessage x) ''error''])"
    using h4 by auto
  with h5 h1 h2 h3 show ?thesis
    by auto
qed

text \<open>
  The claim as the specification words it has the submission fail before any remote call
  is attempted. On the fresh form, and on the form after a rejected date, the trace of
  \<^verbatim>\<open>handleSubmit\<close> starts with the remote call.
\<close>

theorem handleSubmit_missing_date_counterexample:
  "sundayDate HourTracker_init = JUndefined
   \<and> handleSubmit std Delivered HourTracker_init [] =
       (HourTracker_init, [],
        [Apex_saveHours (hourData HourTracker_init),
         ShowToast ''Error'' ''Error logging hours: Argument cannot be null.'' ''error''])
   \<and> sundayDate (fst (handleDateChange std ''2024-01-08'' HourTracker_init)) = JStr []
   \<and> snd (snd (handleSubmit std Delivered
         (fst (handleDateChange std ''2024-01-08'' HourTracker_init)) [])) =
       [Apex_saveHours (hourData (fst (handleDateChange std ''2024-01-08'' HourTracker_init))),
        ShowToast ''Error'' ''Error logging hours: Invalid date: '' ''error'']"
  by (simp add: handleSubmit_def call_saveHours_def handleSubmit_catch_def handleDateChange_def
      saveHours_defs request_defs std_defs HourTracker_init_def)

subsection \<open>A date on another day of the week\<close>






subsection \<open>A query that fails\<close>

text \<open>
  Claim C9. When the wire service hands over a result without data, \<^verbatim>\<open>wiredHours\<close>
  leaves \<^verbatim>\<open>hoursData\<close> as it was; with an error in the result it writes one line to the
  console and asks for no new query. In particular a refresh whose query fails makes that
  one query only and keeps the rows.
\<close>

theorem wiredHours_error_keeps_hoursData:
  assumes "data result = None"
  shows "hoursData (fst (wiredHours result this)) = hoursData this
    \<and> RefreshApex \<notin> set (snd (wiredHours result this))
    \<and> (error result = Some e \<longrightarrow>
         wiredHours result this =
           (this\<lparr>wiredHoursResult := Some result\<rparr>,
            [Console_error (''Error retrieving hours data: '' @ e)]))
    \<and> (result = wire_getAllHours (Failed m) s \<longrightarrow>
         refreshData (Failed m) s this =
           (this\<lparr>wiredHoursResult := Some result\<rparr>,
            [RefreshApex, Console_error (''Error retrieving hours data: '' @ m)]))"
  using assms
  by (auto simp: wiredHours_def Let_def refreshData_def wire_getAllHours_def split: option.splits)

text \<open>The display shows the table of scenario A, and the next query fails.\<close>

theorem wiredHours_error_keeps_hoursData_witness:
  "data (wire_getAllHours (Failed ''offline'') []) = None
   \<and> error (wire_getAllHours (Failed ''offline'') []) = Some ''offline''
   \<and> hoursData (fst (wiredHours (wire_getAllHours (Failed ''offline'') []) display_A)) =
       map to_row stored_A
   \<and> refreshData (Failed ''offline'') [] display_A =
       (display_A\<lparr>wiredHoursResult := Some \<lparr>data = None, error = Some ''offline''\<rparr>\<rparr>,
        [RefreshApex, Console_error ''Error retrieving hours data: offline''])"
proof -
  have w: "wire_getAllHours (Failed ''offline'') [] = \<lparr>data = None, error = Some ''offline''\<rparr>"
    by (simp add: wire_getAllHours_def)
  then have h: "data (wire_getAllHours (Failed ''offline'') []) = None"
    and e: "error (wire_getAllHours (Failed ''offline'') []) = Some ''offline''"
    by simp_all
  have d: "hoursData display_A = map to_row stored_A"
    by (simp add: display_A_def)
  note inst = wiredHours_error_keeps_hoursData
    [OF h, of display_A "''offline''" "''offline''" "[]"]
  from inst d
  have "hoursData (fst (wiredHours (wire_getAllHours (Failed ''offline'') []) display_A)) =
      map to_row stored_A"
    by simp
  moreover from inst
  have "refreshData (Failed ''offline'') [] display_A =
      (display_A\<lparr>wiredHoursResult := Some (wire_getAllHours (Failed ''offline'') [])\<rparr>,
       [RefreshApex, Console_error (''Error retrieving hours data: '' @ ''offline'')])"
    by blast
  ultimately show ?thesis
    using h e by (simp add: w)
qed

subsection \<open>An input event for no known day\<close>

text \<open>
  Claim C10. When the \<^verbatim>\<open>data-id\<close> of the input is none of the seven day names, or is
  absent, \<^verbatim>\<open>handleInputChange\<close> returns the component as it was: the seven hour fields,
  the date and the visibility of the table are unchanged.
\<close>

theorem handleInputChange_unknown_day_changes_nothing:
  assumes "day \<notin> Some ` set day_names"
  shows "handleInputChange day v this = this"
  using assms by (auto simp: handleInputChange_def day_names_def)

theorem handleInputChange_unknown_day_changes_nothing_witness:
  "Some ''funday'' \<notin> Some ` set day_names
   \<and> handleInputChange (Some ''funday'') ''8'' week_A = week_A
   \<and> None \<notin> Some ` set day_names
   \<and> handleInputChange None ''8'' week_A = week_A"
proof -
  have h1: "Some ''funday'' \<notin> Some ` set day_names"
    by (simp add: day_names_def)
  have h2: "None \<notin> Some ` set day_names"
    by auto
  from handleInputChange_unknown_day_changes_nothing [OF h1, of "''8''" week_A]
    handleInputChange_unknown_day_changes_nothing [OF h2, of "''8''" week_A] h1 h2
  show ?thesis
    by blast
qed

end
